theory Spec2Isabelle
  imports Main
begin

section \<open>The debug command of vic-machine\<close>

text \<open>
  The development embeds \<^verbatim>\<open>cmd/vic-machine/debug/debug.go\<close>: the methods
  \<^verbatim>\<open>processParams\<close> and \<^verbatim>\<open>Run\<close> of the command \<^verbatim>\<open>Debug\<close>.
  \<^verbatim>\<open>Run\<close> drives collaborators of other packages (the credential check, the
  validator, the dispatcher's methods, the file read). Their bodies are not part of the
  file, so the model takes each of them as a parameter: a function from the arguments
  \<^verbatim>\<open>Run\<close> passes to the result \<^verbatim>\<open>Run\<close> receives. Every call
  \<^verbatim>\<open>Run\<close> makes is written to a trace, in program order, so that a property such
  as "the diagnostic logs are collected" is a property of the trace.
\<close>

subsection \<open>Values\<close>

text \<open>
  A Go \<^verbatim>\<open>error\<close> is observed by callers through its message; \<^verbatim>\<open>errors.New\<close>
  builds the error that carries the given message.
\<close>

datatype error = Error (Error_msg: string)

definition errors_New :: "string \<Rightarrow> error" where
  "errors_New msg = Error msg"

type_synonym duration = int

text \<open>
  \<^verbatim>\<open>context.Background()\<close> and \<^verbatim>\<open>context.WithTimeout(parent, d)\<close>. The
  model keeps how a context was built; the passing of time is not modelled.
\<close>

datatype context_Context = Background | WithTimeout context_Context duration

text \<open>
  \<^verbatim>\<open>data.Data\<close> is declared in \<^verbatim>\<open>lib/install/data\<close>. The record has the
  fields \<^verbatim>\<open>debug.go\<close> reads or writes; \<open>Debug_Debug\<close> is \<^verbatim>\<open>d.Debug.Debug\<close>.
\<close>

record Data =
  ID :: string
  ComputeResourcePath :: string
  DisplayName :: string
  Insecure :: bool
  Timeout :: duration
  Force :: bool
  Debug_Debug :: int

text \<open>
  The struct \<^verbatim>\<open>Debug\<close>. Its field \<^verbatim>\<open>executor\<close> is never assigned or read
  (\<^verbatim>\<open>Run\<close> works with a local variable of that name), so the record leaves it out.
\<close>

record Debug =
  Data :: Data
  enableSSH :: bool
  password :: string
  authorizedKey :: string

type_synonym session = nat

record Validator =
  Context :: context_Context
  Session :: session

record Dispatcher =
  ctx :: context_Context
  session :: session
  force :: bool

text \<open>
  \<^verbatim>\<open>management.NewDispatcher(ctx, session, nil, force)\<close> stores its arguments in a
  fresh dispatcher.
\<close>

definition NewDispatcher :: "context_Context \<Rightarrow> session \<Rightarrow> bool \<Rightarrow> Dispatcher" where
  "NewDispatcher c s f = \<lparr>ctx = c, session = s, force = f\<rparr>"

datatype VirtualMachine = VirtualMachine (Reference: string)

datatype VCHConfig = VCHConfig (Version: string)

subsection \<open>Collaborators\<close>

text \<open>
  One field per function that \<^verbatim>\<open>Run\<close> calls outside its own file. A Go result
  \<^verbatim>\<open>(v, err)\<close> is a sum with the error on the left, a lone \<^verbatim>\<open>error\<close> result
  is an option. \<^verbatim>\<open>Run\<close> calls each collaborator at most once, so a function of
  the arguments covers a collaborator whose answer depends on what happened before.
  The collaborators that receive \<^verbatim>\<open>d.Data\<close> are taken to read it only.
\<close>

record World =
  HasCredentials :: "Data \<Rightarrow> error option"
  NewValidator :: "context_Context \<Rightarrow> Data \<Rightarrow> error + Validator"
  NewVCHFromID :: "Dispatcher \<Rightarrow> string \<Rightarrow> error + VirtualMachine"
  NewVCHFromComputePath ::
    "Dispatcher \<Rightarrow> string \<Rightarrow> string \<Rightarrow> Validator \<Rightarrow> error + VirtualMachine"
  GetVCHConfig :: "Dispatcher \<Rightarrow> VirtualMachine \<Rightarrow> error + VCHConfig"
  GetBuild :: string
  ReadFile :: "string \<Rightarrow> error + string"
  DebugVCH ::
    "Dispatcher \<Rightarrow> VirtualMachine \<Rightarrow> VCHConfig \<Rightarrow> string \<Rightarrow> string \<Rightarrow> error option"
  InspectVCH :: "Dispatcher \<Rightarrow> VirtualMachine \<Rightarrow> VCHConfig \<Rightarrow> error option"

subsection \<open>Traces\<close>

datatype level = ErrorLevel | InfoLevel

text \<open>
  \<open>Logf l fmt args\<close> is a call of the logger at level \<open>l\<close> with the format string and
  the rendered arguments. \<open>SetLevelDebug\<close> stands for the two assignments that raise the
  log level, \<open>CallCancel\<close> for the deferred \<^verbatim>\<open>cancel()\<close>. The other events are the
  calls of \<^verbatim>\<open>Run\<close>, each with the arguments it is given; the dispatcher's methods
  carry the dispatcher they are called on.
\<close>

datatype event =
    CallHasCredentials Data
  | SetLevelDebug
  | Logf level string "string list"
  | CallWithTimeout duration
  | CallCancel
  | CallNewValidator context_Context Data
  | CallNewVCHFromID Dispatcher string
  | CallNewVCHFromComputePath Dispatcher string string Validator
  | CallGetVCHConfig Dispatcher VirtualMachine
  | CallInitDiagnosticLogs Dispatcher VCHConfig
  | CallReadFile string
  | CallDebugVCH Dispatcher VirtualMachine VCHConfig string string
  | CallInspectVCH Dispatcher VirtualMachine VCHConfig
  | CallCollectDiagnosticLogs Dispatcher

subsection \<open>processParams and Run\<close>

text \<open>
  \<^verbatim>\<open>processParams\<close> returns the error of the credential check, or sets
  \<^verbatim>\<open>d.Insecure\<close>. The result is the command after the call, the trace and the
  returned error.
\<close>

definition processParams :: "World \<Rightarrow> Debug \<Rightarrow> Debug \<times> event list \<times> error option" where
  "processParams w d =
     (case HasCredentials w (Data d) of
        Some err \<Rightarrow> (d, [CallHasCredentials (Data d)], Some err)
      | None \<Rightarrow>
          (d\<lparr>Data := (Data d)\<lparr>Insecure := True\<rparr>\<rparr>, [CallHasCredentials (Data d)], None))"

text \<open>
  The choice between the two resolvers (the \<^verbatim>\<open>if d.Data.ID != ""\<close> of
  \<^verbatim>\<open>Run\<close>): the call that is made and what it returns.
\<close>

definition resolve ::
  "World \<Rightarrow> Dispatcher \<Rightarrow> Data \<Rightarrow> Validator \<Rightarrow> event \<times> (error + VirtualMachine)" where
  "resolve w executor dd validator =
     (if ID dd \<noteq> []
      then (CallNewVCHFromID executor (ID dd), NewVCHFromID w executor (ID dd))
      else (CallNewVCHFromComputePath executor (ComputeResourcePath dd) (DisplayName dd)
              validator,
            NewVCHFromComputePath w executor (ComputeResourcePath dd) (DisplayName dd)
              validator))"

text \<open>
  The loading of the key file (\<^verbatim>\<open>if d.authorizedKey != ""\<close>): the file is read
  only when a name is set; \<^verbatim>\<open>key\<close> stays empty otherwise.
\<close>

definition load_key :: "World \<Rightarrow> string \<Rightarrow> event list \<times> (error + string)" where
  "load_key w file =
     (if file \<noteq> [] then ([CallReadFile file], ReadFile w file) else ([], Inr []))"

text \<open>
  The part of \<^verbatim>\<open>Run\<close> below \<^verbatim>\<open>defer cancel()\<close>: from the creation of the
  validator to the end. \<open>c\<close> is the context made by \<^verbatim>\<open>context.WithTimeout\<close>.
  The result is the trace and the returned error.
\<close>

definition Run_under :: "World \<Rightarrow> Debug \<Rightarrow> context_Context \<Rightarrow> event list \<times> error option" where
  "Run_under w d c =
     (case NewValidator w c (Data d) of
        Inl err \<Rightarrow>
          ([CallNewValidator c (Data d),
            Logf ErrorLevel ''Debug cannot continue - failed to create validator: %s''
              [Error_msg err]],
           Some (errors_New ''Debug failed''))
      | Inr validator \<Rightarrow>
          let executor =
                NewDispatcher (Context validator) (Session validator) (Force (Data d));
              t1 = [CallNewValidator c (Data d),
                    fst (resolve w executor (Data d) validator)]
          in
          (case snd (resolve w executor (Data d) validator) of
             Inl err \<Rightarrow>
               (t1 @ [Logf ErrorLevel ''Failed to get Virtual Container Host %s''
                        [DisplayName (Data d)],
                      Logf ErrorLevel ''%s'' [Error_msg err]],
                Some (errors_New ''Debug failed''))
           | Inr vch \<Rightarrow>
               let t2 = t1 @ [Logf InfoLevel [] [],
                              Logf InfoLevel ''VCH ID: %s'' [Reference vch],
                              CallGetVCHConfig executor vch]
               in
               (case GetVCHConfig w executor vch of
                  Inl err \<Rightarrow>
                    (t2 @ [Logf ErrorLevel
                             ''Failed to get Virtual Container Host configuration'' [],
                           Logf ErrorLevel ''%s'' [Error_msg err]],
                     Some (errors_New ''Debug failed''))
                | Inr vchConfig \<Rightarrow>
                    let t3 = t2 @ [CallInitDiagnosticLogs executor vchConfig,
                                   Logf InfoLevel [] [],
                                   Logf InfoLevel ''Installer version: %s'' [GetBuild w],
                                   Logf InfoLevel ''VCH version: %s'' [Version vchConfig]]
                               @ fst (load_key w (authorizedKey d))
                    in
                    (case snd (load_key w (authorizedKey d)) of
                       Inl err \<Rightarrow>
                         (t3 @ [Logf ErrorLevel ''Unable to read public key from %s: %s''
                                  [authorizedKey d, Error_msg err]],
                          Some (errors_New ''unable to load public key''))
                     | Inr key \<Rightarrow>
                         let t4 = t3 @ [CallDebugVCH executor vch vchConfig (password d) key]
                         in
                         (case DebugVCH w executor vch vchConfig (password d) key of
                            Some err \<Rightarrow>
                              (t4 @ [CallCollectDiagnosticLogs executor,
                                     Logf ErrorLevel ''%s'' [Error_msg err]],
                               Some (errors_New ''Debug failed''))
                          | None \<Rightarrow>
                              let t5 = t4 @ [CallInspectVCH executor vch vchConfig] in
                              (case InspectVCH w executor vch vchConfig of
                                 Some err \<Rightarrow>
                                   (t5 @ [CallCollectDiagnosticLogs executor,
                                          Logf ErrorLevel ''%s'' [Error_msg err]],
                                    Some (errors_New ''inspect failed''))
                               | None \<Rightarrow>
                                   (t5 @ [Logf InfoLevel ''Completed successfully'' []],
                                    None)))))))"

text \<open>
  \<^verbatim>\<open>Run\<close>. \<open>args\<close> is \<^verbatim>\<open>cli.Args()\<close>. The deferred \<^verbatim>\<open>cancel()\<close>
  runs when the part below it returns, so it is the last event of those runs.
\<close>

definition Run :: "World \<Rightarrow> string list \<Rightarrow> Debug \<Rightarrow> Debug \<times> event list \<times> error option" where
  "Run w args d0 =
     (case processParams w d0 of
        (d, t0, Some err) \<Rightarrow> (d, t0, Some err)
      | (d, t0, None) \<Rightarrow>
          let t1 = t0 @ (if Debug_Debug (Data d) > 0 then [SetLevelDebug] else []) in
          (case args of
             a # _ \<Rightarrow>
               (d, t1 @ [Logf ErrorLevel ''Unknown argument: %s'' [a]],
                Some (errors_New ''invalid CLI arguments''))
           | [] \<Rightarrow>
               let c = WithTimeout Background (Timeout (Data d)) in
               (d,
                t1 @ [Logf InfoLevel ''### Configuring VCH for debug ####'' [],
                      CallWithTimeout (Timeout (Data d))]
                   @ fst (Run_under w d c) @ [CallCancel],
                snd (Run_under w d c))))"

definition trace_of :: "Debug \<times> event list \<times> error option \<Rightarrow> event list" where
  "trace_of r = fst (snd r)"

definition error_of :: "Debug \<times> event list \<times> error option \<Rightarrow> error option" where
  "error_of r = snd (snd r)"

definition final_of :: "Debug \<times> event list \<times> error option \<Rightarrow> Debug" where
  "final_of r = fst r"

subsection \<open>Reading a trace\<close>

fun is_Credentials :: "event \<Rightarrow> bool" where
  "is_Credentials (CallHasCredentials _) = True"
| "is_Credentials _ = False"


fun is_Validate :: "event \<Rightarrow> bool" where
  "is_Validate (CallNewValidator _ _) = True"
| "is_Validate _ = False"

fun is_FromID :: "event \<Rightarrow> bool" where
  "is_FromID (CallNewVCHFromID _ _) = True"
| "is_FromID _ = False"

fun is_FromComputePath :: "event \<Rightarrow> bool" where
  "is_FromComputePath (CallNewVCHFromComputePath _ _ _ _) = True"
| "is_FromComputePath _ = False"

definition is_Resolve :: "event \<Rightarrow> bool" where
  "is_Resolve e = (is_FromID e \<or> is_FromComputePath e)"

fun is_GetConfig :: "event \<Rightarrow> bool" where
  "is_GetConfig (CallGetVCHConfig _ _) = True"
| "is_GetConfig _ = False"

fun is_ReadFile :: "event \<Rightarrow> bool" where
  "is_ReadFile (CallReadFile _) = True"
| "is_ReadFile _ = False"

fun is_Configure :: "event \<Rightarrow> bool" where
  "is_Configure (CallDebugVCH _ _ _ _ _) = True"
| "is_Configure _ = False"

fun is_Inspect :: "event \<Rightarrow> bool" where
  "is_Inspect (CallInspectVCH _ _ _) = True"
| "is_Inspect _ = False"

fun is_Collect :: "event \<Rightarrow> bool" where
  "is_Collect (CallCollectDiagnosticLogs _) = True"
| "is_Collect _ = False"

text \<open>
  The calls that go to the platform: the validator, which opens the session, and every
  method of the dispatcher. The credential check, the logger, the creation of the
  context and the file read stay on the operator's machine.
\<close>

fun is_remote :: "event \<Rightarrow> bool" where
  "is_remote (CallNewValidator _ _) = True"
| "is_remote (CallNewVCHFromID _ _) = True"
| "is_remote (CallNewVCHFromComputePath _ _ _ _) = True"
| "is_remote (CallGetVCHConfig _ _) = True"
| "is_remote (CallInitDiagnosticLogs _ _) = True"
| "is_remote (CallDebugVCH _ _ _ _ _) = True"
| "is_remote (CallInspectVCH _ _ _) = True"
| "is_remote (CallCollectDiagnosticLogs _) = True"
| "is_remote _ = False"

text \<open>
  \<open>fails w e\<close>: the call \<open>e\<close> returns an error in the world \<open>w\<close>.
\<close>

fun fails :: "World \<Rightarrow> event \<Rightarrow> bool" where
  "fails w (CallHasCredentials dd) = (HasCredentials w dd \<noteq> None)"
| "fails w (CallNewValidator c dd) = isl (NewValidator w c dd)"
| "fails w (CallNewVCHFromID ex i) = isl (NewVCHFromID w ex i)"
| "fails w (CallNewVCHFromComputePath ex p n v) = isl (NewVCHFromComputePath w ex p n v)"
| "fails w (CallGetVCHConfig ex vch) = isl (GetVCHConfig w ex vch)"
| "fails w (CallReadFile f) = isl (ReadFile w f)"
| "fails w (CallDebugVCH ex vch cfg pw key) = (DebugVCH w ex vch cfg pw key \<noteq> None)"
| "fails w (CallInspectVCH ex vch cfg) = (InspectVCH w ex vch cfg \<noteq> None)"
| "fails w _ = False"

text \<open>
  \<open>step_failed w p t\<close>: the trace \<open>t\<close> has a call of the kind \<open>p\<close> that returned an
  error; \<open>step_ok w p t\<close>: it has one that returned none.
\<close>

definition step_failed :: "World \<Rightarrow> (event \<Rightarrow> bool) \<Rightarrow> event list \<Rightarrow> bool" where
  "step_failed w p t = list_ex (\<lambda>e. p e \<and> fails w e) t"

definition step_ok :: "World \<Rightarrow> (event \<Rightarrow> bool) \<Rightarrow> event list \<Rightarrow> bool" where
  "step_ok w p t = list_ex (\<lambda>e. p e \<and> \<not> fails w e) t"

definition count_of :: "(event \<Rightarrow> bool) \<Rightarrow> event list \<Rightarrow> nat" where
  "count_of p t = length (filter p t)"



text \<open>
  \<open>preceded p q t\<close>: reading \<open>t\<close> from the front, an event of the kind \<open>p\<close> comes
  before the first event of the kind \<open>q\<close>, if there is one.
\<close>

fun preceded :: "(event \<Rightarrow> bool) \<Rightarrow> (event \<Rightarrow> bool) \<Rightarrow> event list \<Rightarrow> bool" where
  "preceded p q [] = True"
| "preceded p q (e # es) = (\<not> q e \<and> (p e \<or> preceded p q es))"

subsection \<open>Sample inputs\<close>

text \<open>A platform on which every call succeeds.\<close>

definition world_ok :: World where
  "world_ok =
     \<lparr>HasCredentials = (\<lambda>_. None),
      NewValidator = (\<lambda>c _. Inr \<lparr>Context = c, Session = 7\<rparr>),
      NewVCHFromID = (\<lambda>_ i. Inr (VirtualMachine i)),
      NewVCHFromComputePath = (\<lambda>_ _ n _. Inr (VirtualMachine n)),
      GetVCHConfig = (\<lambda>_ _. Inr (VCHConfig ''v1.1'')),
      GetBuild = ''v1.1'',
      ReadFile = (\<lambda>_. Inr ''ssh-rsa AAAA''),
      DebugVCH = (\<lambda>_ _ _ _ _. None),
      InspectVCH = (\<lambda>_ _ _. None)\<rparr>"

definition boom :: error where
  "boom = Error ''boom''"

definition world_no_credentials :: World where
  "world_no_credentials = world_ok\<lparr>HasCredentials := (\<lambda>_. Some boom)\<rparr>"

definition world_validate_fails :: World where
  "world_validate_fails = world_ok\<lparr>NewValidator := (\<lambda>_ _. Inl boom)\<rparr>"

definition world_resolve_fails :: World where
  "world_resolve_fails =
     world_ok\<lparr>NewVCHFromID := (\<lambda>_ _. Inl boom),
              NewVCHFromComputePath := (\<lambda>_ _ _ _. Inl boom)\<rparr>"

definition world_getconfig_fails :: World where
  "world_getconfig_fails = world_ok\<lparr>GetVCHConfig := (\<lambda>_ _. Inl boom)\<rparr>"

definition world_readfile_fails :: World where
  "world_readfile_fails = world_ok\<lparr>ReadFile := (\<lambda>_. Inl boom)\<rparr>"

definition world_configure_fails :: World where
  "world_configure_fails = world_ok\<lparr>DebugVCH := (\<lambda>_ _ _ _ _. Some boom)\<rparr>"

definition world_inspect_fails :: World where
  "world_inspect_fails = world_ok\<lparr>InspectVCH := (\<lambda>_ _ _. Some boom)\<rparr>"

text \<open>
  A request by ID, one by compute path and name with a key file, and one with every
  selector field empty.
\<close>

definition debug_by_id :: Debug where
  "debug_by_id =
     \<lparr>Data = \<lparr>ID = ''vch-42'', ComputeResourcePath = ''/dc1/host/cluster1'',
              DisplayName = ''vch-test'', Insecure = False, Timeout = 180, Force = False,
              Debug_Debug = 0\<rparr>,
      enableSSH = True, password = [], authorizedKey = []\<rparr>"

definition debug_by_path :: Debug where
  "debug_by_path =
     \<lparr>Data = \<lparr>ID = [], ComputeResourcePath = ''/dc1/host/cluster1'',
              DisplayName = ''vch-test'', Insecure = False, Timeout = 180, Force = False,
              Debug_Debug = 1\<rparr>,
      enableSSH = True, password = ''secret'', authorizedKey = ''id_rsa.pub''\<rparr>"

definition debug_no_selector :: Debug where
  "debug_no_selector =
     \<lparr>Data = \<lparr>ID = [], ComputeResourcePath = [], DisplayName = [], Insecure = False,
              Timeout = 180, Force = False, Debug_Debug = 0\<rparr>,
      enableSSH = True, password = [], authorizedKey = []\<rparr>"

section \<open>The paths of Run\<close>

text \<open>
  \<^verbatim>\<open>Run\<close> has no loop: it follows one of nine paths, decided by the first
  check or collaborator that returns an error. The rule below gives, for each path, the
  answers of the collaborators that select it and the result of the run: the command
  after the run, the trace and the returned error.
\<close>

lemma Run_cases
  [case_names no_credentials bad_args validate resolve get_config read_key configure
     inspect success]:
  fixes w :: World and args :: "string list" and d :: Debug
  defines "d1 \<equiv> d\<lparr>Data := (Data d)\<lparr>Insecure := True\<rparr>\<rparr>"
    and "c \<equiv> WithTimeout Background (Timeout (Data d))"
    and "t0 \<equiv> CallHasCredentials (Data d)
                # (if Debug_Debug (Data d) > 0 then [SetLevelDebug] else [])
                @ [Logf InfoLevel ''### Configuring VCH for debug ####'' [],
                   CallWithTimeout (Timeout (Data d))]"
  obtains
    (no_credentials) e where
      "HasCredentials w (Data d) = Some e"
      "Run w args d = (d, [CallHasCredentials (Data d)], Some e)"
  | (bad_args) a rest where
      "HasCredentials w (Data d) = None" "args = a # rest"
      "Run w args d =
         (d1,
          CallHasCredentials (Data d)
            # (if Debug_Debug (Data d) > 0 then [SetLevelDebug] else [])
            @ [Logf ErrorLevel ''Unknown argument: %s'' [a]],
          Some (errors_New ''invalid CLI arguments''))"
  | (validate) e where
      "HasCredentials w (Data d) = None" "args = []"
      "NewValidator w c (Data d1) = Inl e"
      "Run w args d =
         (d1,
          t0 @ [CallNewValidator c (Data d1),
                Logf ErrorLevel ''Debug cannot continue - failed to create validator: %s''
                  [Error_msg e],
                CallCancel],
          Some (errors_New ''Debug failed''))"
  | (resolve) v ex e where
      "HasCredentials w (Data d) = None" "args = []"
      "NewValidator w c (Data d1) = Inr v"
      "ex = NewDispatcher (Context v) (Session v) (Force (Data d))"
      "snd (resolve w ex (Data d1) v) = Inl e"
      "Run w args d =
         (d1,
          t0 @ [CallNewValidator c (Data d1), fst (resolve w ex (Data d1) v),
                Logf ErrorLevel ''Failed to get Virtual Container Host %s''
                  [DisplayName (Data d)],
                Logf ErrorLevel ''%s'' [Error_msg e],
                CallCancel],
          Some (errors_New ''Debug failed''))"
  | (get_config) v ex vch e where
      "HasCredentials w (Data d) = None" "args = []"
      "NewValidator w c (Data d1) = Inr v"
      "ex = NewDispatcher (Context v) (Session v) (Force (Data d))"
      "snd (resolve w ex (Data d1) v) = Inr vch"
      "GetVCHConfig w ex vch = Inl e"
      "Run w args d =
         (d1,
           t0 @ [CallNewValidator c (Data d1), fst (resolve w ex (Data d1) v),
                 Logf InfoLevel [] [], Logf InfoLevel ''VCH ID: %s'' [Reference vch],
                 CallGetVCHConfig ex vch,
                 Logf ErrorLevel ''Failed to get Virtual Container Host configuration'' [],
                 Logf ErrorLevel ''%s'' [Error_msg e],
                 CallCancel],
          Some (errors_New ''Debug failed''))"
  | (read_key) v ex vch cfg e where
      "HasCredentials w (Data d) = None" "args = []"
      "NewValidator w c (Data d1) = Inr v"
      "ex = NewDispatcher (Context v) (Session v) (Force (Data d))"
      "snd (resolve w ex (Data d1) v) = Inr vch"
      "GetVCHConfig w ex vch = Inr cfg"
      "authorizedKey d \<noteq> []"
      "ReadFile w (authorizedKey d) = Inl e"
      "Run w args d =
         (d1,
           t0 @ [CallNewValidator c (Data d1), fst (resolve w ex (Data d1) v),
                 Logf InfoLevel [] [], Logf InfoLevel ''VCH ID: %s'' [Reference vch],
                 CallGetVCHConfig ex vch, CallInitDiagnosticLogs ex cfg,
                 Logf InfoLevel [] [],
                 Logf InfoLevel ''Installer version: %s'' [GetBuild w],
                 Logf InfoLevel ''VCH version: %s'' [Version cfg]]
              @ fst (load_key w (authorizedKey d))
              @ [Logf ErrorLevel ''Unable to read public key from %s: %s''
                   [authorizedKey d, Error_msg e],
                 CallCancel],
          Some (errors_New ''unable to load public key''))"
  | (configure) v ex vch cfg key e where
      "HasCredentials w (Data d) = None" "args = []"
      "NewValidator w c (Data d1) = Inr v"
      "ex = NewDispatcher (Context v) (Session v) (Force (Data d))"
      "snd (resolve w ex (Data d1) v) = Inr vch"
      "GetVCHConfig w ex vch = Inr cfg"
      "snd (load_key w (authorizedKey d)) = Inr key"
      "DebugVCH w ex vch cfg (password d) key = Some e"
      "Run w args d =
         (d1,
           t0 @ [CallNewValidator c (Data d1), fst (resolve w ex (Data d1) v),
                 Logf InfoLevel [] [], Logf InfoLevel ''VCH ID: %s'' [Reference vch],
                 CallGetVCHConfig ex vch, CallInitDiagnosticLogs ex cfg,
                 Logf InfoLevel [] [],
                 Logf InfoLevel ''Installer version: %s'' [GetBuild w],
                 Logf InfoLevel ''VCH version: %s'' [Version cfg]]
              @ fst (load_key w (authorizedKey d))
              @ [CallDebugVCH ex vch cfg (password d) key,
                 CallCollectDiagnosticLogs ex,
                 Logf ErrorLevel ''%s'' [Error_msg e],
                 CallCancel],
          Some (errors_New ''Debug failed''))"
  | (inspect) v ex vch cfg key e where
      "HasCredentials w (Data d) = None" "args = []"
      "NewValidator w c (Data d1) = Inr v"
      "ex = NewDispatcher (Context v) (Session v) (Force (Data d))"
      "snd (resolve w ex (Data d1) v) = Inr vch"
      "GetVCHConfig w ex vch = Inr cfg"
      "snd (load_key w (authorizedKey d)) = Inr key"
      "DebugVCH w ex vch cfg (password d) key = None"
      "InspectVCH w ex vch cfg = Some e"
      "Run w args d =
         (d1,
           t0 @ [CallNewValidator c (Data d1), fst (resolve w ex (Data d1) v),
                 Logf InfoLevel [] [], Logf InfoLevel ''VCH ID: %s'' [Reference vch],
                 CallGetVCHConfig ex vch, CallInitDiagnosticLogs ex cfg,
                 Logf InfoLevel [] [],
                 Logf InfoLevel ''Installer version: %s'' [GetBuild w],
                 Logf InfoLevel ''VCH version: %s'' [Version cfg]]
              @ fst (load_key w (authorizedKey d))
              @ [CallDebugVCH ex vch cfg (password d) key,
                 CallInspectVCH ex vch cfg,
                 CallCollectDiagnosticLogs ex,
                 Logf ErrorLevel ''%s'' [Error_msg e],
                 CallCancel],
          Some (errors_New ''inspect failed''))"
  | (success) v ex vch cfg key where
      "HasCredentials w (Data d) = None" "args = []"
      "NewValidator w c (Data d1) = Inr v"
      "ex = NewDispatcher (Context v) (Session v) (Force (Data d))"
      "snd (resolve w ex (Data d1) v) = Inr vch"
      "GetVCHConfig w ex vch = Inr cfg"
      "snd (load_key w (authorizedKey d)) = Inr key"
      "DebugVCH w ex vch cfg (password d) key = None"
      "InspectVCH w ex vch cfg = None"
      "Run w args d =
         (d1,
           t0 @ [CallNewValidator c (Data d1), fst (resolve w ex (Data d1) v),
                 Logf InfoLevel [] [], Logf InfoLevel ''VCH ID: %s'' [Reference vch],
                 CallGetVCHConfig ex vch, CallInitDiagnosticLogs ex cfg,
                 Logf InfoLevel [] [],
                 Logf InfoLevel ''Installer version: %s'' [GetBuild w],
                 Logf InfoLevel ''VCH version: %s'' [Version cfg]]
              @ fst (load_key w (authorizedKey d))
              @ [CallDebugVCH ex vch cfg (password d) key,
                 CallInspectVCH ex vch cfg,
                 Logf InfoLevel ''Completed successfully'' [],
                 CallCancel],
          None)"
proof (cases "HasCredentials w (Data d)")
  case (Some e)
  then show thesis
    by (intro no_credentials [of e]) (simp_all add: Run_def processParams_def)
next
  case cr: None
  note defs = d1_def c_def t0_def Run_def processParams_def Run_under_def Let_def
  show thesis
  proof (cases args)
    case (Cons a rest)
    with cr show thesis
      by (intro bad_args [of a rest]) (simp_all add: defs)
  next
    case ar: Nil
    show thesis
    proof (cases "NewValidator w c (Data d1)")
      case (Inl e)
      with cr ar show thesis
        by (intro validate [of e]) (simp_all add: defs)
    next
      case v: (Inr v)
      define ex where "ex = NewDispatcher (Context v) (Session v) (Force (Data d))"
      show thesis
      proof (cases "snd (resolve w ex (Data d1) v)")
        case (Inl e)
        with cr ar v ex_def show thesis
          by (intro resolve [of v ex e]) (simp_all add: defs)
      next
        case vch: (Inr vch)
        show thesis
        proof (cases "GetVCHConfig w ex vch")
          case (Inl e)
          with cr ar v vch ex_def show thesis
            by (intro get_config [of v ex vch e]) (simp_all add: defs)
        next
          case cfg: (Inr cfg)
          show thesis
          proof (cases "snd (load_key w (authorizedKey d))")
            case (Inl e)
            then have "authorizedKey d \<noteq> []" "ReadFile w (authorizedKey d) = Inl e"
              by (auto simp: load_key_def split: if_splits)
            with cr ar v vch cfg ex_def show thesis
              by (intro read_key [of v ex vch cfg e]) (simp_all add: defs load_key_def)
          next
            case key: (Inr key)
            show thesis
            proof (cases "DebugVCH w ex vch cfg (password d) key")
              case (Some e)
              with cr ar v vch cfg key ex_def show thesis
                by (intro configure [of v ex vch cfg key e]) (simp_all add: defs)
            next
              case dbg: None
              show thesis
              proof (cases "InspectVCH w ex vch cfg")
                case (Some e)
                with cr ar v vch cfg key dbg ex_def show thesis
                  by (intro inspect [of v ex vch cfg key e]) (simp_all add: defs)
              next
                case None
                with cr ar v vch cfg key dbg ex_def show thesis
                  by (intro success [of v ex vch cfg key]) (simp_all add: defs)
              qed
            qed
          qed
        qed
      qed
    qed
  qed
qed

lemmas run_simps =
  trace_of_def error_of_def final_of_def step_failed_def step_ok_def count_of_def
  is_Resolve_def resolve_def load_key_def

lemmas sample_defs =
  world_ok_def world_no_credentials_def world_validate_fails_def world_resolve_fails_def
  world_getconfig_fails_def world_readfile_fails_def world_configure_fails_def
  world_inspect_fails_def debug_by_id_def debug_by_path_def debug_no_selector_def boom_def

lemmas eval_defs =
  Run_def Run_under_def processParams_def Let_def NewDispatcher_def errors_New_def

lemma preceded_sound:
  "preceded p q t \<Longrightarrow> t = pre @ e # post \<Longrightarrow> q e \<Longrightarrow> \<exists>x\<in>set pre. p x"
proof (induction t arbitrary: pre)
  case Nil
  then show ?case by simp
next
  case (Cons a t)
  show ?case
  proof (cases pre)
    case Nil
    with Cons.prems show ?thesis by simp
  next
    case (Cons b pre')
    with Cons.prems Cons.IH [of pre'] show ?thesis by auto
  qed
qed

lemma inspect_preceded:
  "preceded (\<lambda>x. is_Configure x \<and> \<not> fails w x) is_Inspect (trace_of (Run w args d))"
  by (cases rule: Run_cases [where w = w and d = d and args = args])
     (simp_all add: run_simps split: if_splits)

lemma configure_failed_run:
  assumes "step_failed w is_Configure (trace_of (Run w args d))"
  shows "error_of (Run w args d) = Some (errors_New ''Debug failed'')"
    and "count_of is_Collect (trace_of (Run w args d)) = 1"
    and "\<not> list_ex is_Inspect (trace_of (Run w args d))"
    and "\<exists>pre ex vch cfg pw key msg. trace_of (Run w args d) =
           pre @ [CallDebugVCH ex vch cfg pw key, CallCollectDiagnosticLogs ex,
                  Logf ErrorLevel ''%s'' [msg], CallCancel]"
  using assms
  by (cases rule: Run_cases [where w = w and d = d and args = args];
      simp add: run_simps split: if_splits)+

lemma inspect_failed_run:
  assumes "step_failed w is_Inspect (trace_of (Run w args d))"
  shows "error_of (Run w args d) = Some (errors_New ''inspect failed'')"
    and "count_of is_Collect (trace_of (Run w args d)) = 1"
    and "step_ok w is_Configure (trace_of (Run w args d))"
    and "\<exists>pre ex vch cfg msg. trace_of (Run w args d) =
           pre @ [CallInspectVCH ex vch cfg, CallCollectDiagnosticLogs ex,
                  Logf ErrorLevel ''%s'' [msg], CallCancel]"
  using assms
  by (cases rule: Run_cases [where w = w and d = d and args = args];
      simp add: run_simps split: if_splits)+

lemma early_failure_run:
  assumes "step_failed w is_Validate (trace_of (Run w args d)) \<or>
           step_failed w is_Resolve (trace_of (Run w args d)) \<or>
           step_failed w is_GetConfig (trace_of (Run w args d))"
  shows "error_of (Run w args d) = Some (errors_New ''Debug failed'')"
  using assms
  by (cases rule: Run_cases [where w = w and d = d and args = args])
     (simp_all add: run_simps split: if_splits)

lemma read_key_failed_run:
  assumes "step_failed w is_ReadFile (trace_of (Run w args d))"
  shows "error_of (Run w args d) = Some (errors_New ''unable to load public key'')"
  using assms
  by (cases rule: Run_cases [where w = w and d = d and args = args])
     (simp_all add: run_simps split: if_splits)

lemma messages_distinct:
  "distinct [errors_New ''Debug failed'', errors_New ''invalid CLI arguments'',
             errors_New ''unable to load public key'', errors_New ''inspect failed'']"
  by (simp add: errors_New_def)




section \<open>Diagnostic collection\<close>

text \<open>
  C1. The diagnostic logs are collected on the runs in which \<^verbatim>\<open>DebugVCH\<close> or
  \<^verbatim>\<open>InspectVCH\<close> returned an error, and on no other run: not when the command
  line has stray arguments, and not when the credential check, the validator, the
  resolver, the fetch of the configuration or the read of the key file failed.
\<close>

theorem collect_exactly_on_configure_or_inspect_failure:
  fixes w :: World and args :: "string list" and d :: Debug
  defines "t \<equiv> trace_of (Run w args d)"
  shows "(list_ex is_Collect t \<longleftrightarrow>
            step_failed w is_Configure t \<or> step_failed w is_Inspect t) \<and>
         (args \<noteq> [] \<or> step_failed w is_Credentials t \<or> step_failed w is_Validate t \<or>
          step_failed w is_Resolve t \<or> step_failed w is_GetConfig t \<or>
          step_failed w is_ReadFile t
          \<longrightarrow> \<not> list_ex is_Collect t)"
  by (cases rule: Run_cases [where w = w and d = d and args = args])
     (simp_all add: t_def run_simps split: if_splits)

theorem collect_exactly_on_configure_or_inspect_failure_witness:
  "step_failed world_validate_fails is_Validate
     (trace_of (Run world_validate_fails [] debug_by_id)) \<and>
   \<not> list_ex is_Collect (trace_of (Run world_validate_fails [] debug_by_id)) \<and>
   step_failed world_configure_fails is_Configure
     (trace_of (Run world_configure_fails [] debug_by_path)) \<and>
   list_ex is_Collect (trace_of (Run world_configure_fails [] debug_by_path))"
proof -
  have v: "step_failed world_validate_fails is_Validate
             (trace_of (Run world_validate_fails [] debug_by_id))"
    by (simp add: eval_defs run_simps sample_defs)
  have c: "step_failed world_configure_fails is_Configure
             (trace_of (Run world_configure_fails [] debug_by_path))"
    by (simp add: eval_defs run_simps sample_defs)
  from v collect_exactly_on_configure_or_inspect_failure
         [where w = world_validate_fails and args = "[]" and d = debug_by_id]
  have "\<not> list_ex is_Collect (trace_of (Run world_validate_fails [] debug_by_id))"
    by blast
  moreover
  from c collect_exactly_on_configure_or_inspect_failure
         [where w = world_configure_fails and args = "[]" and d = debug_by_path]
  have "list_ex is_Collect (trace_of (Run world_configure_fails [] debug_by_path))"
    by blast
  ultimately show ?thesis using v c by blast
qed

text \<open>
  C2. When \<^verbatim>\<open>DebugVCH\<close> returns an error, the diagnostic logs are collected
  once, right after that call, \<^verbatim>\<open>Run\<close> returns the error "Debug failed", and
  \<^verbatim>\<open>InspectVCH\<close> is not called. In every run, a call of \<^verbatim>\<open>InspectVCH\<close>
  comes after a call of \<^verbatim>\<open>DebugVCH\<close> that returned no error.
\<close>

theorem configure_failure_collects_once_and_skips_inspect:
  fixes w :: World and args :: "string list" and d :: Debug
  defines "r \<equiv> Run w args d"
  shows "(step_failed w is_Configure (trace_of r) \<longrightarrow>
            count_of is_Collect (trace_of r) = 1 \<and>
            error_of r = Some (errors_New ''Debug failed'') \<and>
            \<not> list_ex is_Inspect (trace_of r) \<and>
            (\<exists>pre ex vch cfg pw key msg. trace_of r =
               pre @ [CallDebugVCH ex vch cfg pw key, CallCollectDiagnosticLogs ex,
                      Logf ErrorLevel ''%s'' [msg], CallCancel])) \<and>
         (\<forall>pre e post. trace_of r = pre @ e # post \<and> is_Inspect e \<longrightarrow>
            (\<exists>x\<in>set pre. is_Configure x \<and> \<not> fails w x))"
proof (intro conjI impI allI)
  assume f: "step_failed w is_Configure (trace_of r)"
  show "count_of is_Collect (trace_of r) = 1"
    using f configure_failed_run(2) unfolding r_def by blast
  show "error_of r = Some (errors_New ''Debug failed'')"
    using f configure_failed_run(1) unfolding r_def by blast
  show "\<not> list_ex is_Inspect (trace_of r)"
    using f configure_failed_run(3) unfolding r_def by blast
  show "\<exists>pre ex vch cfg pw key msg. trace_of r =
          pre @ [CallDebugVCH ex vch cfg pw key, CallCollectDiagnosticLogs ex,
                 Logf ErrorLevel ''%s'' [msg], CallCancel]"
    using f configure_failed_run(4) unfolding r_def by blast
next
  fix pre e post
  assume "trace_of r = pre @ e # post \<and> is_Inspect e"
  with preceded_sound [OF inspect_preceded [where w = w and args = args and d = d], of pre e post]
  show "\<exists>x\<in>set pre. is_Configure x \<and> \<not> fails w x"
    unfolding r_def by blast
qed

theorem configure_failure_collects_once_and_skips_inspect_witness:
  "step_failed world_configure_fails is_Configure
     (trace_of (Run world_configure_fails [] debug_by_id)) \<and>
   count_of is_Collect (trace_of (Run world_configure_fails [] debug_by_id)) = 1 \<and>
   error_of (Run world_configure_fails [] debug_by_id) = Some (errors_New ''Debug failed'') \<and>
   \<not> list_ex is_Inspect (trace_of (Run world_configure_fails [] debug_by_id)) \<and>
   trace_of (Run world_ok [] debug_by_id) =
     take 13 (trace_of (Run world_ok [] debug_by_id))
       @ trace_of (Run world_ok [] debug_by_id) ! 13
       # drop 14 (trace_of (Run world_ok [] debug_by_id)) \<and>
   is_Inspect (trace_of (Run world_ok [] debug_by_id) ! 13) \<and>
   (\<exists>x\<in>set (take 13 (trace_of (Run world_ok [] debug_by_id))).
      is_Configure x \<and> \<not> fails world_ok x)"
proof -
  have f: "step_failed world_configure_fails is_Configure
             (trace_of (Run world_configure_fails [] debug_by_id))"
    by (simp add: eval_defs run_simps sample_defs)
  have i: "trace_of (Run world_ok [] debug_by_id) =
             take 13 (trace_of (Run world_ok [] debug_by_id))
               @ trace_of (Run world_ok [] debug_by_id) ! 13
               # drop 14 (trace_of (Run world_ok [] debug_by_id)) \<and>
           is_Inspect (trace_of (Run world_ok [] debug_by_id) ! 13)"
    by (simp add: eval_defs run_simps sample_defs)
  note c = configure_failure_collects_once_and_skips_inspect [where w = world_configure_fails and args = "[]" and d = debug_by_id]
  note o = configure_failure_collects_once_and_skips_inspect [where w = world_ok and args = "[]" and d = debug_by_id]
  from f c have
    "count_of is_Collect (trace_of (Run world_configure_fails [] debug_by_id)) = 1 \<and>
     error_of (Run world_configure_fails [] debug_by_id) = Some (errors_New ''Debug failed'') \<and>
     \<not> list_ex is_Inspect (trace_of (Run world_configure_fails [] debug_by_id))"
    by blast
  moreover from i o have
    "\<exists>x\<in>set (take 13 (trace_of (Run world_ok [] debug_by_id))).
       is_Configure x \<and> \<not> fails world_ok x"
    by blast
  ultimately show ?thesis using f i by blast
qed

section \<open>The selector\<close>

text \<open>
  C3, as stated: when the ID, the compute-resource path and the display name are all
  empty, an error is returned before any call goes to the platform. \<^verbatim>\<open>Run\<close>
  has no such check. On a platform where every call succeeds the run below ends without
  an error, after calling the validator and the dispatcher; on a platform where the
  resolver fails, "Debug failed" is returned only after the validator and
  \<^verbatim>\<open>NewVCHFromComputePath\<close> have been called.
\<close>

theorem empty_selector_reaches_platform:
  "ID (Data debug_no_selector) = [] \<and>
   ComputeResourcePath (Data debug_no_selector) = [] \<and>
   DisplayName (Data debug_no_selector) = [] \<and>
   error_of (Run world_ok [] debug_no_selector) = None \<and>
   list_ex is_remote (trace_of (Run world_ok [] debug_no_selector)) \<and>
   error_of (Run world_resolve_fails [] debug_no_selector) =
     Some (errors_New ''Debug failed'') \<and>
   list_ex is_FromComputePath (trace_of (Run world_resolve_fails [] debug_no_selector))"
  by (simp add: eval_defs run_simps sample_defs)

text \<open>
  C3, amended. With the three selector fields empty, the credential check passed and no
  stray argument, \<^verbatim>\<open>Run\<close> calls the validator; if the validator succeeds it
  calls \<^verbatim>\<open>NewVCHFromComputePath\<close> with the empty path and the empty name; and
  it returns an error only if one of the calls of the run returned one.
\<close>

theorem empty_selector_is_left_to_collaborators:
  fixes w :: World and d :: Debug
  defines "r \<equiv> Run w [] d"
    and "c \<equiv> WithTimeout Background (Timeout (Data d))"
    and "dd \<equiv> (Data d)\<lparr>Insecure := True\<rparr>"
  assumes "ID (Data d) = []" and "ComputeResourcePath (Data d) = []"
    and "DisplayName (Data d) = []" and "HasCredentials w (Data d) = None"
  shows "CallNewValidator c dd \<in> set (trace_of r) \<and>
         (\<forall>v. NewValidator w c dd = Inr v \<longrightarrow>
            CallNewVCHFromComputePath
              (NewDispatcher (Context v) (Session v) (Force (Data d))) [] [] v
              \<in> set (trace_of r)) \<and>
         (error_of r \<noteq> None \<longrightarrow> list_ex (fails w) (trace_of r))"
  using assms(4-)
  by (cases rule: Run_cases [where w = w and d = d and args = "[]"])
     (simp_all add: r_def c_def dd_def run_simps split: if_splits)

theorem empty_selector_is_left_to_collaborators_witness:
  "ID (Data debug_no_selector) = [] \<and>
   ComputeResourcePath (Data debug_no_selector) = [] \<and>
   DisplayName (Data debug_no_selector) = [] \<and>
   HasCredentials world_resolve_fails (Data debug_no_selector) = None \<and>
   CallNewValidator (WithTimeout Background 180)
     ((Data debug_no_selector)\<lparr>Insecure := True\<rparr>)
     \<in> set (trace_of (Run world_resolve_fails [] debug_no_selector)) \<and>
   CallNewVCHFromComputePath
     (NewDispatcher (WithTimeout Background 180) 7 False) [] []
     \<lparr>Context = WithTimeout Background 180, Session = 7\<rparr>
     \<in> set (trace_of (Run world_resolve_fails [] debug_no_selector)) \<and>
   error_of (Run world_resolve_fails [] debug_no_selector) \<noteq> None \<and>
   list_ex (fails world_resolve_fails) (trace_of (Run world_resolve_fails [] debug_no_selector))"
proof -
  have h: "ID (Data debug_no_selector) = []"
    "ComputeResourcePath (Data debug_no_selector) = []"
    "DisplayName (Data debug_no_selector) = []"
    "HasCredentials world_resolve_fails (Data debug_no_selector) = None"
    by (simp_all add: sample_defs)
  have t: "Timeout (Data debug_no_selector) = 180" "Force (Data debug_no_selector) = False"
    by (simp_all add: sample_defs)
  have v: "NewValidator world_resolve_fails (WithTimeout Background 180)
             ((Data debug_no_selector)\<lparr>Insecure := True\<rparr>) =
           Inr \<lparr>Context = WithTimeout Background 180, Session = 7\<rparr>"
    by (simp add: sample_defs)
  have e: "error_of (Run world_resolve_fails [] debug_no_selector) \<noteq> None"
    by (simp add: eval_defs run_simps sample_defs)
  from empty_selector_is_left_to_collaborators [OF h] t v e show ?thesis using h by simp
qed

section \<open>The key file\<close>

text \<open>
  C4. When the read of the authorized-key file fails, \<^verbatim>\<open>Run\<close> returns the error
  "unable to load public key", which is none of the other errors it builds; neither
  \<^verbatim>\<open>DebugVCH\<close> nor \<^verbatim>\<open>InspectVCH\<close> has been called, so nothing of the
  appliance has been changed; and the diagnostic logs are not collected. By then the
  appliance has been looked up and its configuration fetched, both without error.
\<close>

theorem key_read_failure_is_distinct_and_uncollected:
  fixes w :: World and args :: "string list" and d :: Debug
  defines "r \<equiv> Run w args d"
  assumes "step_failed w is_ReadFile (trace_of r)"
  shows "error_of r = Some (errors_New ''unable to load public key'') \<and>
         errors_New ''unable to load public key'' \<notin>
           {errors_New ''Debug failed'', errors_New ''inspect failed'',
            errors_New ''invalid CLI arguments''} \<and>
         \<not> list_ex is_Configure (trace_of r) \<and>
         \<not> list_ex is_Inspect (trace_of r) \<and>
         \<not> list_ex is_Collect (trace_of r) \<and>
         step_ok w is_Resolve (trace_of r) \<and>
         step_ok w is_GetConfig (trace_of r)"
  using assms(2)
  by (cases rule: Run_cases [where w = w and d = d and args = args])
     (simp_all add: r_def run_simps errors_New_def split: if_splits)

theorem key_read_failure_is_distinct_and_uncollected_witness:
  "step_failed world_readfile_fails is_ReadFile
     (trace_of (Run world_readfile_fails [] debug_by_path)) \<and>
   error_of (Run world_readfile_fails [] debug_by_path) =
     Some (errors_New ''unable to load public key'') \<and>
   \<not> list_ex is_Configure (trace_of (Run world_readfile_fails [] debug_by_path)) \<and>
   \<not> list_ex is_Collect (trace_of (Run world_readfile_fails [] debug_by_path))"
proof -
  have h: "step_failed world_readfile_fails is_ReadFile
             (trace_of (Run world_readfile_fails [] debug_by_path))"
    by (simp add: eval_defs run_simps sample_defs)
  from key_read_failure_is_distinct_and_uncollected [OF h] h show ?thesis by simp
qed

section \<open>Resolution\<close>

text \<open>
  C5. With a non-empty ID, \<^verbatim>\<open>NewVCHFromComputePath\<close> is never called, and the
  resolving call is \<^verbatim>\<open>NewVCHFromID\<close> with that ID. With an empty ID,
  \<^verbatim>\<open>NewVCHFromID\<close> is never called, and the resolving call is
  \<^verbatim>\<open>NewVCHFromComputePath\<close> with the path and the display name of the request.
  A run resolves at most once, and does so whenever the validator has succeeded.
\<close>

theorem id_takes_precedence_over_compute_path:
  fixes w :: World and args :: "string list" and d :: Debug
  defines "t \<equiv> trace_of (Run w args d)"
    and "c \<equiv> WithTimeout Background (Timeout (Data d))"
    and "dd \<equiv> (Data d)\<lparr>Insecure := True\<rparr>"
  shows "(ID (Data d) \<noteq> [] \<longrightarrow>
            \<not> list_ex is_FromComputePath t \<and>
            (list_ex is_Resolve t \<longrightarrow> (\<exists>ex. CallNewVCHFromID ex (ID (Data d)) \<in> set t))) \<and>
         (ID (Data d) = [] \<longrightarrow>
            \<not> list_ex is_FromID t \<and>
            (list_ex is_Resolve t \<longrightarrow>
               (\<exists>ex v. CallNewVCHFromComputePath ex (ComputeResourcePath (Data d))
                          (DisplayName (Data d)) v \<in> set t))) \<and>
         (HasCredentials w (Data d) = None \<and> args = [] \<and> \<not> isl (NewValidator w c dd)
            \<longrightarrow> list_ex is_Resolve t) \<and>
         count_of is_Resolve t \<le> 1"
  by (cases rule: Run_cases [where w = w and d = d and args = args])
     (simp_all add: t_def c_def dd_def run_simps split: if_splits)

theorem id_takes_precedence_over_compute_path_witness:
  "ID (Data debug_by_id) \<noteq> [] \<and>
   list_ex is_Resolve (trace_of (Run world_ok [] debug_by_id)) \<and>
   \<not> list_ex is_FromComputePath (trace_of (Run world_ok [] debug_by_id)) \<and>
   (\<exists>ex. CallNewVCHFromID ex ''vch-42'' \<in> set (trace_of (Run world_ok [] debug_by_id))) \<and>
   ID (Data debug_by_path) = [] \<and>
   list_ex is_Resolve (trace_of (Run world_ok [] debug_by_path)) \<and>
   \<not> list_ex is_FromID (trace_of (Run world_ok [] debug_by_path)) \<and>
   (\<exists>ex v. CallNewVCHFromComputePath ex ''/dc1/host/cluster1'' ''vch-test'' v
      \<in> set (trace_of (Run world_ok [] debug_by_path)))"
proof -
  have i: "ID (Data debug_by_id) \<noteq> []" "ID (Data debug_by_id) = ''vch-42''"
    "HasCredentials world_ok (Data debug_by_id) = None"
    "\<not> isl (NewValidator world_ok (WithTimeout Background (Timeout (Data debug_by_id)))
             ((Data debug_by_id)\<lparr>Insecure := True\<rparr>))"
    by (simp_all add: sample_defs)
  have p: "ID (Data debug_by_path) = []"
    "ComputeResourcePath (Data debug_by_path) = ''/dc1/host/cluster1''"
    "DisplayName (Data debug_by_path) = ''vch-test''"
    "HasCredentials world_ok (Data debug_by_path) = None"
    "\<not> isl (NewValidator world_ok (WithTimeout Background (Timeout (Data debug_by_path)))
             ((Data debug_by_path)\<lparr>Insecure := True\<rparr>))"
    by (simp_all add: sample_defs)
  from i id_takes_precedence_over_compute_path [where w = world_ok and args = "[]" and d = debug_by_id]
  have "list_ex is_Resolve (trace_of (Run world_ok [] debug_by_id)) \<and>
        \<not> list_ex is_FromComputePath (trace_of (Run world_ok [] debug_by_id)) \<and>
        (\<exists>ex. CallNewVCHFromID ex ''vch-42'' \<in> set (trace_of (Run world_ok [] debug_by_id)))"
    by simp
  moreover
  from p id_takes_precedence_over_compute_path [where w = world_ok and args = "[]" and d = debug_by_path]
  have "list_ex is_Resolve (trace_of (Run world_ok [] debug_by_path)) \<and>
        \<not> list_ex is_FromID (trace_of (Run world_ok [] debug_by_path)) \<and>
        (\<exists>ex v. CallNewVCHFromComputePath ex ''/dc1/host/cluster1'' ''vch-test'' v
           \<in> set (trace_of (Run world_ok [] debug_by_path)))"
    by simp
  ultimately show ?thesis using i(1) p(1) by blast
qed

section \<open>Validation\<close>

text \<open>
  C6. When \<^verbatim>\<open>NewValidator\<close> returns an error, \<^verbatim>\<open>Run\<close> returns
  "Debug failed" at once: after the call come one log line and the deferred
  \<^verbatim>\<open>cancel()\<close>, and the trace has no call of the resolver, of
  \<^verbatim>\<open>GetVCHConfig\<close>, of \<^verbatim>\<open>DebugVCH\<close>, of \<^verbatim>\<open>InspectVCH\<close> or of
  the collection of diagnostic logs.
\<close>

theorem validator_failure_is_terminal:
  fixes w :: World and args :: "string list" and d :: Debug
  defines "r \<equiv> Run w args d"
  assumes "step_failed w is_Validate (trace_of r)"
  shows "error_of r = Some (errors_New ''Debug failed'') \<and>
         \<not> list_ex is_Collect (trace_of r) \<and>
         \<not> list_ex is_Resolve (trace_of r) \<and>
         \<not> list_ex is_GetConfig (trace_of r) \<and>
         \<not> list_ex is_Configure (trace_of r) \<and>
         \<not> list_ex is_Inspect (trace_of r) \<and>
         (\<exists>pre c dd msg. trace_of r =
            pre @ [CallNewValidator c dd,
                   Logf ErrorLevel
                     ''Debug cannot continue - failed to create validator: %s'' [msg],
                   CallCancel])"
  using assms(2)
  by (cases rule: Run_cases [where w = w and d = d and args = args])
     (simp_all add: r_def run_simps split: if_splits)

theorem validator_failure_is_terminal_witness:
  "step_failed world_validate_fails is_Validate
     (trace_of (Run world_validate_fails [] debug_by_path)) \<and>
   error_of (Run world_validate_fails [] debug_by_path) = Some (errors_New ''Debug failed'') \<and>
   \<not> list_ex is_Collect (trace_of (Run world_validate_fails [] debug_by_path)) \<and>
   \<not> list_ex is_Resolve (trace_of (Run world_validate_fails [] debug_by_path)) \<and>
   \<not> list_ex is_Configure (trace_of (Run world_validate_fails [] debug_by_path)) \<and>
   \<not> list_ex is_Inspect (trace_of (Run world_validate_fails [] debug_by_path))"
proof -
  have h: "step_failed world_validate_fails is_Validate
             (trace_of (Run world_validate_fails [] debug_by_path))"
    by (simp add: eval_defs run_simps sample_defs)
  from validator_failure_is_terminal [OF h] h show ?thesis by simp
qed

section \<open>Inspection\<close>

text \<open>
  C7. When \<^verbatim>\<open>InspectVCH\<close> returns an error, \<^verbatim>\<open>DebugVCH\<close> has succeeded
  before, the diagnostic logs are collected once, right after the failed call, and
  \<^verbatim>\<open>Run\<close> returns "inspect failed", which differs from the error of every run
  in which \<^verbatim>\<open>DebugVCH\<close> failed.
\<close>

theorem inspect_failure_collects_and_is_distinct:
  fixes w :: World and args :: "string list" and d :: Debug
  defines "r \<equiv> Run w args d"
  assumes "step_failed w is_Inspect (trace_of r)"
  shows "step_ok w is_Configure (trace_of r) \<and>
         count_of is_Collect (trace_of r) = 1 \<and>
         (\<exists>pre ex vch cfg msg. trace_of r =
            pre @ [CallInspectVCH ex vch cfg, CallCollectDiagnosticLogs ex,
                   Logf ErrorLevel ''%s'' [msg], CallCancel]) \<and>
         error_of r = Some (errors_New ''inspect failed'') \<and>
         (\<forall>w' args' d'. step_failed w' is_Configure (trace_of (Run w' args' d')) \<longrightarrow>
            error_of (Run w' args' d') \<noteq> error_of r)"
proof -
  note i = inspect_failed_run [OF assms(2) [unfolded r_def]]
  have "error_of (Run w' args' d') \<noteq> error_of r"
    if "step_failed w' is_Configure (trace_of (Run w' args' d'))" for w' args' d'
    using configure_failed_run(1) [OF that] i(1)
    by (simp add: r_def errors_New_def)
  with i show ?thesis unfolding r_def by blast
qed

theorem inspect_failure_collects_and_is_distinct_witness:
  "step_failed world_inspect_fails is_Inspect
     (trace_of (Run world_inspect_fails [] debug_by_id)) \<and>
   step_failed world_configure_fails is_Configure
     (trace_of (Run world_configure_fails [] debug_by_id)) \<and>
   count_of is_Collect (trace_of (Run world_inspect_fails [] debug_by_id)) = 1 \<and>
   error_of (Run world_inspect_fails [] debug_by_id) = Some (errors_New ''inspect failed'') \<and>
   error_of (Run world_configure_fails [] debug_by_id) \<noteq>
     error_of (Run world_inspect_fails [] debug_by_id)"
proof -
  have h: "step_failed world_inspect_fails is_Inspect
             (trace_of (Run world_inspect_fails [] debug_by_id))"
    by (simp add: eval_defs run_simps sample_defs)
  have g: "step_failed world_configure_fails is_Configure
             (trace_of (Run world_configure_fails [] debug_by_id))"
    by (simp add: eval_defs run_simps sample_defs)
  from inspect_failure_collects_and_is_distinct [OF h] g h show ?thesis by blast
qed

section \<open>Insecure mode\<close>

text \<open>
  C8. When the credential check passes, \<^verbatim>\<open>d.Insecure\<close> is true after the run,
  whatever it was before; the data handed to the validator is the caller's with
  \<^verbatim>\<open>Insecure\<close> set; and with no stray argument the validator is called.
\<close>

theorem insecure_forced_before_validation:
  fixes w :: World and args :: "string list" and d :: Debug
  defines "r \<equiv> Run w args d"
  assumes "HasCredentials w (Data d) = None"
  shows "final_of r = d\<lparr>Data := (Data d)\<lparr>Insecure := True\<rparr>\<rparr> \<and>
         Insecure (Data (final_of r)) \<and>
         (\<forall>c dd. CallNewValidator c dd \<in> set (trace_of r) \<longrightarrow>
            dd = (Data d)\<lparr>Insecure := True\<rparr> \<and> Insecure dd) \<and>
         (args = [] \<longrightarrow> list_ex is_Validate (trace_of r))"
  using assms(2)
  by (cases rule: Run_cases [where w = w and d = d and args = args])
     (auto simp add: r_def run_simps split: if_splits)

theorem insecure_forced_before_validation_witness:
  "HasCredentials world_ok (Data debug_by_id) = None \<and>
   \<not> Insecure (Data debug_by_id) \<and>
   Insecure (Data (final_of (Run world_ok [] debug_by_id))) \<and>
   CallNewValidator (WithTimeout Background 180) ((Data debug_by_id)\<lparr>Insecure := True\<rparr>)
     \<in> set (trace_of (Run world_ok [] debug_by_id)) \<and>
   Insecure ((Data debug_by_id)\<lparr>Insecure := True\<rparr>)"
proof -
  have h: "HasCredentials world_ok (Data debug_by_id) = None"
    by (simp add: sample_defs)
  have n: "\<not> Insecure (Data debug_by_id)"
    by (simp add: sample_defs)
  have v: "CallNewValidator (WithTimeout Background 180)
             ((Data debug_by_id)\<lparr>Insecure := True\<rparr>)
           \<in> set (trace_of (Run world_ok [] debug_by_id))"
    by (simp add: eval_defs run_simps sample_defs)
  from insecure_forced_before_validation [OF h, where args = "[]"] v n h show ?thesis by blast
qed

section \<open>The deadline\<close>



section \<open>The returned errors\<close>

text \<open>
  C10. A failure of the validator, of the resolver, of the fetch of the configuration
  and of \<^verbatim>\<open>DebugVCH\<close> all return the same error, "Debug failed". Stray
  arguments return "invalid CLI arguments", a failed read of the key file
  "unable to load public key", a failure of \<^verbatim>\<open>InspectVCH\<close> "inspect failed";
  the four messages are pairwise different, and a run that passed the credential check
  returns one of them or no error. A failed credential check returns the error of
  \<^verbatim>\<open>HasCredentials\<close> unchanged.
\<close>

theorem debug_failed_is_shared_by_four_paths:
  fixes w :: World and args :: "string list" and d :: Debug
  defines "r \<equiv> Run w args d"
  shows "(step_failed w is_Validate (trace_of r) \<or> step_failed w is_Resolve (trace_of r) \<or>
          step_failed w is_GetConfig (trace_of r) \<or> step_failed w is_Configure (trace_of r)
            \<longrightarrow> error_of r = Some (errors_New ''Debug failed'')) \<and>
         (HasCredentials w (Data d) = None \<and> args \<noteq> []
            \<longrightarrow> error_of r = Some (errors_New ''invalid CLI arguments'')) \<and>
         (step_failed w is_ReadFile (trace_of r)
            \<longrightarrow> error_of r = Some (errors_New ''unable to load public key'')) \<and>
         (step_failed w is_Inspect (trace_of r)
            \<longrightarrow> error_of r = Some (errors_New ''inspect failed'')) \<and>
         (\<forall>e. HasCredentials w (Data d) = Some e \<longrightarrow> error_of r = Some e) \<and>
         (HasCredentials w (Data d) = None \<longrightarrow>
            error_of r \<in> {None, Some (errors_New ''Debug failed''),
                          Some (errors_New ''invalid CLI arguments''),
                          Some (errors_New ''unable to load public key''),
                          Some (errors_New ''inspect failed'')}) \<and>
         distinct [errors_New ''Debug failed'', errors_New ''invalid CLI arguments'',
                   errors_New ''unable to load public key'', errors_New ''inspect failed'']"
proof -
  have "error_of r = Some (errors_New ''invalid CLI arguments'')"
    if "HasCredentials w (Data d) = None \<and> args \<noteq> []"
    using that
    by (cases rule: Run_cases [where w = w and d = d and args = args])
       (simp_all add: r_def run_simps)
  moreover have "error_of r = Some e" if "HasCredentials w (Data d) = Some e" for e
    using that
    by (cases rule: Run_cases [where w = w and d = d and args = args])
       (simp_all add: r_def run_simps)
  moreover have "error_of r \<in> {None, Some (errors_New ''Debug failed''),
                          Some (errors_New ''invalid CLI arguments''),
                          Some (errors_New ''unable to load public key''),
                          Some (errors_New ''inspect failed'')}"
    if "HasCredentials w (Data d) = None"
    using that
    by (cases rule: Run_cases [where w = w and d = d and args = args])
       (simp_all add: r_def run_simps)
  ultimately show ?thesis
    using early_failure_run [of w args d] configure_failed_run(1) [of w args d]
      read_key_failed_run [of w args d] inspect_failed_run(1) [of w args d]
      messages_distinct
    unfolding r_def by blast
qed

theorem debug_failed_is_shared_by_four_paths_witness:
  "step_failed world_validate_fails is_Validate
     (trace_of (Run world_validate_fails [] debug_by_path)) \<and>
   step_failed world_resolve_fails is_Resolve
     (trace_of (Run world_resolve_fails [] debug_by_path)) \<and>
   step_failed world_getconfig_fails is_GetConfig
     (trace_of (Run world_getconfig_fails [] debug_by_path)) \<and>
   step_failed world_configure_fails is_Configure
     (trace_of (Run world_configure_fails [] debug_by_path)) \<and>
   error_of (Run world_validate_fails [] debug_by_path) =
     error_of (Run world_resolve_fails [] debug_by_path) \<and>
   error_of (Run world_resolve_fails [] debug_by_path) =
     error_of (Run world_getconfig_fails [] debug_by_path) \<and>
   error_of (Run world_getconfig_fails [] debug_by_path) =
     error_of (Run world_configure_fails [] debug_by_path) \<and>
   error_of (Run world_configure_fails [] debug_by_path) = Some (errors_New ''Debug failed'') \<and>
   step_failed world_readfile_fails is_ReadFile
     (trace_of (Run world_readfile_fails [] debug_by_path)) \<and>
   error_of (Run world_readfile_fails [] debug_by_path) =
     Some (errors_New ''unable to load public key'') \<and>
   step_failed world_inspect_fails is_Inspect
     (trace_of (Run world_inspect_fails [] debug_by_path)) \<and>
   error_of (Run world_inspect_fails [] debug_by_path) = Some (errors_New ''inspect failed'') \<and>
   HasCredentials world_ok (Data debug_by_path) = None \<and>
   error_of (Run world_ok [''extra''] debug_by_path) =
     Some (errors_New ''invalid CLI arguments'') \<and>
   HasCredentials world_no_credentials (Data debug_by_path) = Some boom \<and>
   error_of (Run world_no_credentials [] debug_by_path) = Some boom"
proof -
  have h: "step_failed world_validate_fails is_Validate
             (trace_of (Run world_validate_fails [] debug_by_path))"
    "step_failed world_resolve_fails is_Resolve
       (trace_of (Run world_resolve_fails [] debug_by_path))"
    "step_failed world_getconfig_fails is_GetConfig
       (trace_of (Run world_getconfig_fails [] debug_by_path))"
    "step_failed world_configure_fails is_Configure
       (trace_of (Run world_configure_fails [] debug_by_path))"
    "step_failed world_readfile_fails is_ReadFile
       (trace_of (Run world_readfile_fails [] debug_by_path))"
    "step_failed world_inspect_fails is_Inspect
       (trace_of (Run world_inspect_fails [] debug_by_path))"
    "HasCredentials world_ok (Data debug_by_path) = None"
    "HasCredentials world_no_credentials (Data debug_by_path) = Some boom"
    by (simp_all add: eval_defs run_simps sample_defs)
  from h
    debug_failed_is_shared_by_four_paths [where w = world_validate_fails and args = "[]" and d = debug_by_path]
    debug_failed_is_shared_by_four_paths [where w = world_resolve_fails and args = "[]" and d = debug_by_path]
    debug_failed_is_shared_by_four_paths [where w = world_getconfig_fails and args = "[]" and d = debug_by_path]
    debug_failed_is_shared_by_four_paths [where w = world_configure_fails and args = "[]" and d = debug_by_path]
    debug_failed_is_shared_by_four_paths [where w = world_readfile_fails and args = "[]" and d = debug_by_path]
    debug_failed_is_shared_by_four_paths [where w = world_inspect_fails and args = "[]" and d = debug_by_path]
    debug_failed_is_shared_by_four_paths [where w = world_ok and args = "[''extra'']" and d = debug_by_path]
    debug_failed_is_shared_by_four_paths [where w = world_no_credentials and args = "[]" and d = debug_by_path]
  show ?thesis by simp
qed

end
